theory Spec2Isabelle
  imports Complex_Main
begin

section \<open>Analog clock with date and weather: data model\<close>

text \<open>
  The program is one Python module, \<^verbatim>\<open>Analog_Clock.py\<close>: a table \<^verbatim>\<open>THEMES\<close>, the class
  \<^verbatim>\<open>AnalogClock\<close> and a main loop.  Python's \<^verbatim>\<open>str\<close> is a sequence of code points, so a
  string is a list of code points here; an ASCII literal of the source is written with
  \<open>str_of\<close>.  Python's \<^verbatim>\<open>int\<close> is \<open>int\<close>.  Python's \<^verbatim>\<open>float\<close> is idealised as \<open>real\<close>:
  rounding is not modelled.
\<close>

type_synonym str = "nat list"

definition str_of :: "string \<Rightarrow> str" where
  "str_of s = map of_char s"

text \<open>A colour is a tuple of three or four integers.\<close>

type_synonym colour = "int list"

text \<open>One entry of \<^verbatim>\<open>THEMES\<close>: a dictionary with ten fixed keys.\<close>

record theme =
  background :: colour
  face_outer :: colour
  face_middle :: colour
  face_inner :: colour
  hand_hour :: colour
  hand_minute :: colour
  hand_second :: colour
  mark_color :: colour
  shadow :: colour
  text_color :: colour

definition THEMES_light :: theme where
  "THEMES_light =
     \<lparr> background = [225, 239, 240],
       face_outer = [45, 45, 45],
       face_middle = [229, 229, 229],
       face_inner = [255, 255, 255],
       hand_hour = [45, 45, 45],
       hand_minute = [45, 45, 45],
       hand_second = [255, 0, 0],
       mark_color = [45, 45, 45],
       shadow = [0, 0, 0, 50],
       text_color = [0, 0, 0] \<rparr>"

definition THEMES_dark :: theme where
  "THEMES_dark =
     \<lparr> background = [30, 30, 30],
       face_outer = [100, 100, 100],
       face_middle = [70, 70, 70],
       face_inner = [50, 50, 50],
       hand_hour = [255, 255, 255],
       hand_minute = [200, 200, 200],
       hand_second = [255, 69, 0],
       mark_color = [255, 255, 255],
       shadow = [0, 0, 0, 80],
       text_color = [255, 255, 255] \<rparr>"

text \<open>
  The value of \<^verbatim>\<open>datetime.now()\<close>, an input of the program.  The fields \<open>dt_hour\<close>,
  \<open>dt_minute\<close> and \<open>dt_second\<close> are Python's \<^verbatim>\<open>now.hour\<close>, \<^verbatim>\<open>now.minute\<close> and
  \<^verbatim>\<open>now.second\<close>; the prefix keeps them apart from the fields of the clock.
\<close>

record datetime =
  year :: int
  month :: int
  day :: int
  dt_hour :: int
  dt_minute :: int
  dt_second :: int
  microsecond :: int

text \<open>
  The object of class \<^verbatim>\<open>AnalogClock\<close>.  \<^verbatim>\<open>__init__\<close> does not assign
  \<^verbatim>\<open>current_date\<close>: the attribute exists only after the first \<^verbatim>\<open>update\<close>, hence the option.
  The field \<open>clock_size\<close> is the attribute \<^verbatim>\<open>size\<close>.  The font object is not modelled.
\<close>

record AnalogClock =
  clock_size :: int
  position :: "int \<times> int"
  hour :: int
  minute :: int
  second :: real
  milliseconds :: int
  current_date :: "str option"
  weather :: str

text \<open>
  The calls made on the pygame window, in the order they are made: a recording surface.
  \<open>BlitText t c col\<close> is the text \<open>t\<close> rendered anti-aliased in colour \<open>col\<close> and blitted with
  its rectangle centred at \<open>c\<close>.
\<close>

datatype draw_op =
    Fill colour
  | BlitText str "int \<times> int" colour
  | AACircle int int int colour
  | FilledCircle int int int colour
  | Line colour "real \<times> real" "real \<times> real" int
  | DisplayUpdate

text \<open>What \<^verbatim>\<open>requests.get\<close> does: it returns a response (status code and text) or raises.\<close>

datatype http_outcome = Response int str | Raised

datatype error = AttributeError

text \<open>
  The mutable state of the process: the clock object, the window, and the number of HTTP
  requests issued so far.
\<close>

record world =
  analog_clock :: AnalogClock
  window :: "draw_op list"
  http_requests :: nat

section \<open>Library functions the program calls\<close>

text \<open>\<^verbatim>\<open>str.isspace\<close> for one code point, and \<^verbatim>\<open>str.strip()\<close>.\<close>

definition isspace :: "nat \<Rightarrow> bool" where
  "isspace c \<longleftrightarrow>
     (9 \<le> c \<and> c \<le> 13) \<or> (28 \<le> c \<and> c \<le> 32) \<or> c = 133 \<or> c = 160 \<or> c = 5760 \<or>
     (8192 \<le> c \<and> c \<le> 8202) \<or> c = 8232 \<or> c = 8233 \<or> c = 8239 \<or> c = 8287 \<or> c = 12288"

definition strip :: "str \<Rightarrow> str" where
  "strip s = rev (dropWhile isspace (rev (dropWhile isspace s)))"

text \<open>\<^verbatim>\<open>math.radians\<close>.\<close>

definition radians :: "real \<Rightarrow> real" where
  "radians d = d * pi / 180"

text \<open>
  \<^verbatim>\<open>strftime("%A, %B %d, %Y")\<close> in the C locale: the weekday is computed from the proleptic
  Gregorian ordinal as the datetime module does.
\<close>

definition is_leap :: "int \<Rightarrow> bool" where
  "is_leap y \<longleftrightarrow> y mod 4 = 0 \<and> (y mod 100 \<noteq> 0 \<or> y mod 400 = 0)"

definition days_before_year :: "int \<Rightarrow> int" where
  "days_before_year y = (y - 1) * 365 + (y - 1) div 4 - (y - 1) div 100 + (y - 1) div 400"

definition days_before_month :: "int \<Rightarrow> int \<Rightarrow> int" where
  "days_before_month y m =
     [0, 31, 59, 90, 120, 151, 181, 212, 243, 273, 304, 334] ! nat (m - 1)
       + (if 2 < m \<and> is_leap y then 1 else 0)"

definition ymd2ord :: "int \<Rightarrow> int \<Rightarrow> int \<Rightarrow> int" where
  "ymd2ord y m d = days_before_year y + days_before_month y m + d"

definition weekday :: "datetime \<Rightarrow> int" where
  "weekday now = (ymd2ord (year now) (month now) (day now) + 6) mod 7"

definition day_names :: "string list" where
  "day_names = [''Monday'', ''Tuesday'', ''Wednesday'', ''Thursday'', ''Friday'', ''Saturday'',
     ''Sunday'']"

definition month_names :: "string list" where
  "month_names = [''January'', ''February'', ''March'', ''April'', ''May'', ''June'', ''July'',
     ''August'', ''September'', ''October'', ''November'', ''December'']"

fun decimal :: "nat \<Rightarrow> str" where
  "decimal n = (if n < 10 then [48 + n] else decimal (n div 10) @ [48 + n mod 10])"

declare decimal.simps [simp del]

definition two_digits :: "nat \<Rightarrow> str" where
  "two_digits n = (if n < 10 then 48 # decimal n else decimal n)"

definition strftime :: "datetime \<Rightarrow> str" where
  "strftime now =
     str_of (day_names ! nat (weekday now)) @ str_of '', '' @
     str_of (month_names ! nat (month now - 1)) @ str_of '' '' @
     two_digits (nat (day now)) @ str_of '', '' @ decimal (nat (year now))"

section \<open>The class AnalogClock\<close>

text \<open>\<^verbatim>\<open>update_weather\<close>: \<open>outcome\<close> is what the one \<^verbatim>\<open>requests.get\<close> call does.\<close>

definition update_weather :: "http_outcome \<Rightarrow> world \<Rightarrow> world" where
  "update_weather outcome w =
     (let w1 = w\<lparr>http_requests := http_requests w + 1\<rparr>
      in case outcome of
           Response status_code text \<Rightarrow>
             (if status_code = 200
              then w1\<lparr>analog_clock := (analog_clock w1)\<lparr>weather := strip text\<rparr>\<rparr>
              else w1)
         | Raised \<Rightarrow>
             w1\<lparr>analog_clock := (analog_clock w1)\<lparr>weather := str_of ''Weather unavailable''\<rparr>\<rparr>)"

text \<open>
  \<^verbatim>\<open>__init__\<close>, on the window \<open>win\<close> already created and with \<open>n\<close> requests made before
  (none, in the program).
\<close>

definition init :: "int \<Rightarrow> int \<times> int \<Rightarrow> http_outcome \<Rightarrow> draw_op list \<Rightarrow> nat \<Rightarrow> world" where
  "init sz pos outcome win n =
     update_weather outcome
       \<lparr> analog_clock =
           \<lparr> clock_size = sz, position = pos, hour = 0, minute = 0, second = 0,
             milliseconds = 0, current_date = None, weather = str_of ''Fetching...'' \<rparr>,
         window = win,
         http_requests = n \<rparr>"

text \<open>\<^verbatim>\<open>update\<close>: \<open>now\<close> is the value of its \<^verbatim>\<open>datetime.now()\<close>.\<close>

definition update :: "datetime \<Rightarrow> world \<Rightarrow> world" where
  "update now w =
     w\<lparr>analog_clock := (analog_clock w)
        \<lparr> hour := dt_hour now mod 12,
          minute := dt_minute now,
          second := real_of_int (dt_second now) + real_of_int (microsecond now) / 1000000,
          current_date := Some (strftime now) \<rparr>\<rparr>"

text \<open>\<^verbatim>\<open>get_theme\<close>: \<open>now\<close> is the value of its own \<^verbatim>\<open>datetime.now()\<close>.\<close>

definition get_theme :: "datetime \<Rightarrow> theme" where
  "get_theme now =
     (let current_hour = dt_hour now
      in if 18 \<le> current_hour \<or> current_hour < 6 then THEMES_dark else THEMES_light)"

definition emit :: "draw_op \<Rightarrow> world \<Rightarrow> world" where
  "emit op w = w\<lparr>window := window w @ [op]\<rparr>"

text \<open>
  \<^verbatim>\<open>__draw_circle\<close>.  \<^verbatim>\<open>pygame.gfxdraw\<close> takes the centre and the radius as signed 16-bit
  integers and refuses a negative radius; \<open>draw_circle\<close> records the two calls and does
  not model those refusals.  It is what the code does for a clock with
  \<open>40 \<le> size \<le> 32767\<close> and both centre coordinates from \<open>-32768\<close> to \<open>32767\<close>, as the
  program's clock (size 250 at (300, 300)) is; the theorems about the calls that
  \<^verbatim>\<open>draw\<close> makes assume these bounds.
\<close>

definition draw_circle :: "int \<times> int \<Rightarrow> int \<Rightarrow> colour \<Rightarrow> world \<Rightarrow> world" where
  "draw_circle pos sz color w =
     emit (FilledCircle (fst pos) (snd pos) sz color)
       (emit (AACircle (fst pos) (snd pos) sz color) w)"

definition draw_face :: "theme \<Rightarrow> world \<Rightarrow> world" where
  "draw_face th w =
     (let w1 = draw_circle (position (analog_clock w)) (clock_size (analog_clock w))
                 (face_outer th) w;
          w2 = draw_circle (position (analog_clock w1)) (clock_size (analog_clock w1) - 30)
                 (face_middle th) w1
      in draw_circle (position (analog_clock w2)) (clock_size (analog_clock w2) - 40)
           (face_inner th) w2)"

text \<open>The body of the loop of \<^verbatim>\<open>__draw_hour_marks\<close>, and the loop over \<^verbatim>\<open>range(12)\<close>.\<close>

definition draw_hour_mark :: "theme \<Rightarrow> nat \<Rightarrow> world \<Rightarrow> world" where
  "draw_hour_mark th i w =
     (let self = analog_clock w;
          angle = radians (real (i * 30));
          x1 = real_of_int (fst (position self))
                 + real_of_int (clock_size self - 20) * cos angle;
          y1 = real_of_int (snd (position self))
                 - real_of_int (clock_size self - 20) * sin angle;
          x2 = real_of_int (fst (position self))
                 + real_of_int (clock_size self - 40) * cos angle;
          y2 = real_of_int (snd (position self))
                 - real_of_int (clock_size self - 40) * sin angle
      in emit (Line (mark_color th) (x1, y1) (x2, y2) 5) w)"

definition draw_hour_marks :: "theme \<Rightarrow> world \<Rightarrow> world" where
  "draw_hour_marks th w = fold (draw_hour_mark th) [0..<12] w"

definition draw_hand ::
  "real \<Rightarrow> real \<Rightarrow> int \<Rightarrow> colour \<Rightarrow> bool \<Rightarrow> theme \<Rightarrow> world \<Rightarrow> world" where
  "draw_hand angle0 len width color shadow_on th w =
     (let self = analog_clock w;
          angle = radians (angle0 - 90);
          x = real_of_int (fst (position self)) + len * cos angle;
          y = real_of_int (snd (position self)) + len * sin angle;
          w1 = (if shadow_on
                then (let shadow_offset = 5;
                          shadow_x = real_of_int (fst (position self)) + len * cos angle
                                       + shadow_offset;
                          shadow_y = real_of_int (snd (position self)) + len * sin angle
                                       + shadow_offset
                      in emit (Line (shadow th)
                                 (real_of_int (fst (position self)) + shadow_offset,
                                  real_of_int (snd (position self)) + shadow_offset)
                                 (shadow_x, shadow_y) width) w)
                else w)
      in emit (Line color
                 (real_of_int (fst (position self)), real_of_int (snd (position self)))
                 (x, y) width) w1)"

text \<open>
  \<^verbatim>\<open>__draw_info_panel\<close>: reading \<^verbatim>\<open>self.current_date\<close> raises AttributeError while the
  attribute does not exist.
\<close>

definition draw_info_panel :: "theme \<Rightarrow> world \<Rightarrow> error + world" where
  "draw_info_panel th w =
     (case current_date (analog_clock w) of
        None \<Rightarrow> Inl AttributeError
      | Some d \<Rightarrow>
          Inr (emit (BlitText (d @ str_of '' | '' @ weather (analog_clock w))
                       (fst (position (analog_clock w)), 50) (text_color th)) w))"

text \<open>
  \<^verbatim>\<open>draw\<close>: \<open>now\<close> is the value of the \<^verbatim>\<open>datetime.now()\<close> of \<^verbatim>\<open>get_theme\<close>.  The result is
  the exception raised, if any, and the state the call leaves behind.
\<close>

definition draw :: "datetime \<Rightarrow> world \<Rightarrow> error option \<times> world" where
  "draw now w =
     (let th = get_theme now;
          w1 = emit (Fill (background th)) w
      in case draw_info_panel th w1 of
           Inl e \<Rightarrow> (Some e, w1)
         | Inr w2 \<Rightarrow>
             (let w3 = draw_face th w2;
                  w4 = draw_hour_marks th w3;
                  w5 = draw_hand
                         (real_of_int (hour (analog_clock w4) * 30)
                            + real_of_int (minute (analog_clock w4)) * 0.5)
                         (real_of_int (clock_size (analog_clock w4)) * 0.5) 8
                         (hand_hour th) True th w4;
                  w6 = draw_hand (real_of_int (minute (analog_clock w5) * 6))
                         (real_of_int (clock_size (analog_clock w5)) * 0.7) 6
                         (hand_minute th) True th w5;
                  w7 = draw_hand (second (analog_clock w6) * 6)
                         (real_of_int (clock_size (analog_clock w6)) * 0.9) 3
                         (hand_second th) True th w6
              in (None, draw_circle (position (analog_clock w7)) 10 (face_outer th) w7)))"

section \<open>The main program\<close>

text \<open>
  One iteration of the main loop reads the pending events and the system clock twice (once
  in \<^verbatim>\<open>update\<close>, once in \<^verbatim>\<open>get_theme\<close>).  The loop runs until a QUIT event or an uncaught
  exception; \<open>main_loop\<close> runs it on a finite prefix of its inputs.  The frame-rate limiter
  is not modelled.
\<close>

datatype event = QUIT | OtherEvent nat

record frame =
  events :: "event list"
  now_update :: datetime
  now_draw :: datetime

datatype status = Running | Exited | Crashed error

fun main_loop :: "frame list \<Rightarrow> world \<Rightarrow> status \<times> world" where
  "main_loop [] w = (Running, w)"
| "main_loop (f # fs) w =
     (if QUIT \<in> set (events f) then (Exited, w)
      else case draw (now_draw f) (update (now_update f) w) of
             (Some e, w') \<Rightarrow> (Crashed e, w')
           | (None, w') \<Rightarrow> main_loop fs (emit DisplayUpdate w'))"

text \<open>The module body: the window, the clock of size 250 at (300, 300), then the loop.\<close>

definition program :: "http_outcome \<Rightarrow> frame list \<Rightarrow> status \<times> world" where
  "program outcome fs = main_loop fs (init 250 (300, 300) outcome [] 0)"

section \<open>Observations on a run\<close>

text \<open>The calls that one call of \<^verbatim>\<open>draw\<close> adds to the window.\<close>

definition drawn :: "datetime \<Rightarrow> world \<Rightarrow> draw_op list" where
  "drawn now w = drop (length (window w)) (window (snd (draw now w)))"

text \<open>
  \<open>info_text_ends_with s op\<close>: if \<open>op\<close> blits a text, the text ends with \<open>s\<close>.
\<close>

definition info_text_ends_with :: "str \<Rightarrow> draw_op \<Rightarrow> bool" where
  "info_text_ends_with s op =
     (case op of
        BlitText t c col \<Rightarrow> length s \<le> length t \<and> drop (length t - length s) t = s
      | _ \<Rightarrow> True)"

section \<open>Frame lemmas: what the drawing methods leave alone\<close>

lemma emit_simps:
  "analog_clock (emit op w) = analog_clock w"
  "http_requests (emit op w) = http_requests w"
  "window (emit op w) = window w @ [op]"
  by (simp_all add: emit_def)

lemma draw_circle_simps:
  "analog_clock (draw_circle pos sz color w) = analog_clock w"
  "http_requests (draw_circle pos sz color w) = http_requests w"
  "window (draw_circle pos sz color w) =
     window w @ [AACircle (fst pos) (snd pos) sz color, FilledCircle (fst pos) (snd pos) sz color]"
  by (simp_all add: draw_circle_def emit_simps)

lemma draw_face_simps:
  "analog_clock (draw_face th w) = analog_clock w"
  "http_requests (draw_face th w) = http_requests w"
  by (simp_all add: draw_face_def Let_def draw_circle_simps)

lemma draw_hour_mark_simps:
  "analog_clock (draw_hour_mark th i w) = analog_clock w"
  "http_requests (draw_hour_mark th i w) = http_requests w"
  by (simp_all add: draw_hour_mark_def Let_def emit_simps)

lemma fold_draw_hour_mark_simps:
  "analog_clock (fold (draw_hour_mark th) is w) = analog_clock w"
  "http_requests (fold (draw_hour_mark th) is w) = http_requests w"
  by (induction "is" arbitrary: w; simp add: draw_hour_mark_simps)+

lemma draw_hour_marks_simps:
  "analog_clock (draw_hour_marks th w) = analog_clock w"
  "http_requests (draw_hour_marks th w) = http_requests w"
  by (simp_all add: draw_hour_marks_def fold_draw_hour_mark_simps)

lemma draw_hand_simps:
  "analog_clock (draw_hand a l wd c s th w) = analog_clock w"
  "http_requests (draw_hand a l wd c s th w) = http_requests w"
  by (simp_all add: draw_hand_def Let_def emit_simps)

lemma draw_info_panel_simps:
  "draw_info_panel th w = Inr w' \<Longrightarrow> analog_clock w' = analog_clock w"
  "draw_info_panel th w = Inr w' \<Longrightarrow> http_requests w' = http_requests w"
  by (auto simp: draw_info_panel_def emit_simps split: option.splits)

lemma draw_frame:
  "analog_clock (snd (draw now w)) = analog_clock w"
  "http_requests (snd (draw now w)) = http_requests w"
  by (auto simp: draw_def Let_def emit_simps draw_circle_simps draw_hand_simps
      draw_hour_marks_simps draw_face_simps draw_info_panel_simps split: sum.splits)

lemma update_frame:
  "weather (analog_clock (update now w)) = weather (analog_clock w)"
  "http_requests (update now w) = http_requests w"
  by (simp_all add: update_def)

lemma main_loop_frame:
  "weather (analog_clock (snd (main_loop fs w))) = weather (analog_clock w) \<and>
   http_requests (snd (main_loop fs w)) = http_requests w"
proof (induction fs arbitrary: w)
  case Nil
  show ?case by simp
next
  case (Cons f fs)
  show ?case
  proof (cases "QUIT \<in> set (events f)")
    case True
    then show ?thesis by simp
  next
    case False
    obtain r w' where d: "draw (now_draw f) (update (now_update f) w) = (r, w')"
      by (cases "draw (now_draw f) (update (now_update f) w)")
    have k: "analog_clock w' = analog_clock (update (now_update f) w)"
        "http_requests w' = http_requests (update (now_update f) w)"
      using draw_frame [of "now_draw f" "update (now_update f) w"] d by simp_all
    show ?thesis
    proof (cases r)
      case None
      with False d k Cons.IH [of "emit DisplayUpdate w'"] show ?thesis
        by (simp add: emit_simps update_frame)
    next
      case (Some e)
      with False d k show ?thesis by (simp add: update_frame)
    qed
  qed
qed

section \<open>The calls each drawing method makes\<close>

lemma draw_face_window:
  "window (draw_face th w) = window w @
     [AACircle (fst (position (analog_clock w))) (snd (position (analog_clock w)))
        (clock_size (analog_clock w)) (face_outer th),
      FilledCircle (fst (position (analog_clock w))) (snd (position (analog_clock w)))
        (clock_size (analog_clock w)) (face_outer th),
      AACircle (fst (position (analog_clock w))) (snd (position (analog_clock w)))
        (clock_size (analog_clock w) - 30) (face_middle th),
      FilledCircle (fst (position (analog_clock w))) (snd (position (analog_clock w)))
        (clock_size (analog_clock w) - 30) (face_middle th),
      AACircle (fst (position (analog_clock w))) (snd (position (analog_clock w)))
        (clock_size (analog_clock w) - 40) (face_inner th),
      FilledCircle (fst (position (analog_clock w))) (snd (position (analog_clock w)))
        (clock_size (analog_clock w) - 40) (face_inner th)]"
  by (simp add: draw_face_def Let_def draw_circle_simps)

lemma fold_draw_hour_mark_window:
  "window (fold (draw_hour_mark th) is w) = window w @
     map (\<lambda>i. Line (mark_color th)
            (real_of_int (fst (position (analog_clock w)))
               + real_of_int (clock_size (analog_clock w) - 20) * cos (radians (real (i * 30))),
             real_of_int (snd (position (analog_clock w)))
               - real_of_int (clock_size (analog_clock w) - 20) * sin (radians (real (i * 30))))
            (real_of_int (fst (position (analog_clock w)))
               + real_of_int (clock_size (analog_clock w) - 40) * cos (radians (real (i * 30))),
             real_of_int (snd (position (analog_clock w)))
               - real_of_int (clock_size (analog_clock w) - 40) * sin (radians (real (i * 30))))
            5) is"
proof (induction "is" arbitrary: w)
  case Nil
  show ?case by simp
next
  case (Cons i "is")
  show ?case
    by (simp add: Cons.IH draw_hour_mark_simps)
       (simp add: draw_hour_mark_def Let_def emit_simps)
qed

lemma draw_hand_window:
  "window (draw_hand a l wd col True th w) = window w @
     [Line (shadow th)
        (real_of_int (fst (position (analog_clock w))) + 5,
         real_of_int (snd (position (analog_clock w))) + 5)
        (real_of_int (fst (position (analog_clock w))) + l * cos (radians (a - 90)) + 5,
         real_of_int (snd (position (analog_clock w))) + l * sin (radians (a - 90)) + 5) wd,
      Line col
        (real_of_int (fst (position (analog_clock w))), real_of_int (snd (position (analog_clock w))))
        (real_of_int (fst (position (analog_clock w))) + l * cos (radians (a - 90)),
         real_of_int (snd (position (analog_clock w))) + l * sin (radians (a - 90))) wd]"
  by (simp add: draw_hand_def Let_def emit_simps)

lemma draw_info_panel_window:
  "current_date (analog_clock w) = Some d \<Longrightarrow>
   draw_info_panel th w =
     Inr (emit (BlitText (d @ str_of '' | '' @ weather (analog_clock w))
                  (fst (position (analog_clock w)), 50) (text_color th)) w)"
  by (simp add: draw_info_panel_def)

lemmas draw_steps =
  draw_def Let_def draw_info_panel_window emit_simps draw_face_window draw_face_simps
  draw_hour_marks_def fold_draw_hour_mark_window fold_draw_hour_mark_simps draw_hand_window
  draw_hand_simps draw_circle_simps drawn_def

section \<open>The main loop keeps the weather\<close>

lemma update_current_date:
  "current_date (analog_clock (update now w)) = Some (strftime now)"
  by (simp add: update_def)

lemma update_window: "window (update now w) = window w"
  by (simp add: update_def)

lemma draw_info_text:
  assumes "current_date (analog_clock w) = Some d"
    and "\<forall>op\<in>set (window w). info_text_ends_with (str_of '' | '' @ weather (analog_clock w)) op"
  shows "fst (draw now w) = None \<and>
    (\<forall>op\<in>set (window (snd (draw now w))).
       info_text_ends_with (str_of '' | '' @ weather (analog_clock w)) op)"
  using assms
  by (auto simp add: draw_steps info_text_ends_with_def simp del: upt.simps)

lemma main_loop_info_text:
  "\<forall>op\<in>set (window w). info_text_ends_with (str_of '' | '' @ weather (analog_clock w)) op \<Longrightarrow>
   \<forall>op\<in>set (window (snd (main_loop fs w))).
     info_text_ends_with (str_of '' | '' @ weather (analog_clock w)) op"
proof (induction fs arbitrary: w)
  case Nil
  then show ?case by simp
next
  case (Cons f fs)
  let ?u = "update (now_update f) w"
  let ?s = "str_of '' | '' @ weather (analog_clock w)"
  show ?case
  proof (cases "QUIT \<in> set (events f)")
    case True
    with Cons.prems show ?thesis by simp
  next
    case False
    obtain r w' where d: "draw (now_draw f) ?u = (r, w')"
      by (cases "draw (now_draw f) ?u")
    have pre: "\<forall>op\<in>set (window ?u). info_text_ends_with (str_of '' | '' @ weather (analog_clock ?u)) op"
      using Cons.prems by (simp add: update_window update_frame)
    from draw_info_text [OF update_current_date pre, of "now_draw f"] d
    have r: "r = None"
      and post: "\<forall>op\<in>set (window w'). info_text_ends_with ?s op"
      by (simp_all add: update_frame)
    have cw: "analog_clock w' = analog_clock ?u"
      using draw_frame(1) [of "now_draw f" ?u] d by simp
    have "\<forall>op\<in>set (window (emit DisplayUpdate w')).
            info_text_ends_with (str_of '' | '' @ weather (analog_clock (emit DisplayUpdate w'))) op"
      using post by (simp add: emit_simps cw update_frame info_text_ends_with_def)
    from Cons.IH [OF this] have "\<forall>op\<in>set (window (snd (main_loop fs (emit DisplayUpdate w')))).
            info_text_ends_with ?s op"
      by (simp add: emit_simps cw update_frame)
    with False d r show ?thesis by simp
  qed
qed

lemma update_weather_requests:
  "http_requests (update_weather outcome w) = http_requests w + 1"
  by (simp add: update_weather_def Let_def split: http_outcome.splits)

lemma update_weather_window:
  "window (update_weather outcome w) = window w"
  by (simp add: update_weather_def Let_def split: http_outcome.splits)

section \<open>Stripping\<close>

lemma strip_append:
  "dropWhile isspace s = strip s @ rev (takeWhile isspace (rev (dropWhile isspace s)))"
proof -
  let ?r = "dropWhile isspace s"
  have "takeWhile isspace (rev ?r) @ dropWhile isspace (rev ?r) = rev ?r"
    by (rule takeWhile_dropWhile_id)
  then have "rev (takeWhile isspace (rev ?r) @ dropWhile isspace (rev ?r)) = rev (rev ?r)"
    by (rule arg_cong)
  then show ?thesis
    by (simp only: rev_append rev_rev_ident strip_def)
qed

lemma strip_decomposition:
  "\<exists>pre suf. s = pre @ strip s @ suf \<and> (\<forall>c\<in>set pre. isspace c) \<and> (\<forall>c\<in>set suf. isspace c)"
proof -
  let ?a = "takeWhile isspace s"
  let ?b = "rev (takeWhile isspace (rev (dropWhile isspace s)))"
  have "?a @ dropWhile isspace s = s"
    by (rule takeWhile_dropWhile_id)
  with strip_append [of s] have "s = ?a @ strip s @ ?b"
    by simp
  moreover have "\<forall>c\<in>set ?a. isspace c"
    by (auto dest: set_takeWhileD)
  moreover have "\<forall>c\<in>set ?b. isspace c"
    by (auto dest: set_takeWhileD)
  ultimately show ?thesis by blast
qed

lemma strip_ends:
  assumes "strip s \<noteq> []"
  shows "\<not> isspace (hd (strip s)) \<and> \<not> isspace (last (strip s))"
proof -
  let ?r = "dropWhile isspace s"
  let ?q = "dropWhile isspace (rev ?r)"
  from assms have q: "?q \<noteq> []"
    by (simp add: strip_def)
  then have hq: "\<not> isspace (hd ?q)"
    by (rule hd_dropWhile)
  have l: "last (strip s) = hd ?q"
    using q by (simp add: strip_def last_rev)
  have r: "?r \<noteq> []"
  proof
    assume "?r = []"
    then have "?q = dropWhile isspace (rev [])" by (rule arg_cong)
    then have "?q = []" by (simp only: rev.simps dropWhile.simps)
    with q show False ..
  qed
  then have hr: "\<not> isspace (hd ?r)"
    by (rule hd_dropWhile)
  from assms strip_append [of s] have "hd ?r = hd (strip s)"
    by (metis hd_append2)
  with hr l hq show ?thesis by simp
qed

section \<open>Weather refresh\<close>

lemma update_weather_raised:
  "weather (analog_clock (update_weather Raised w)) = str_of ''Weather unavailable''"
  by (simp add: update_weather_def)

text \<open>
  Claim C1 says that a response with a status other than 200 stores the text
  "Weather unavailable", as a raised exception does.  The code stores it only in the
  \<^verbatim>\<open>except\<close> branch: constructed against an endpoint that answers 500, the clock keeps
  the initial text "Fetching...", which is not the fallback text.
\<close>

theorem update_weather_status_500:
  "weather (analog_clock (init 250 (300, 300) (Response 500 (str_of ''Internal Server Error'')) [] 0))
     = str_of ''Fetching...'' \<and>
   weather (analog_clock (init 250 (300, 300) (Response 500 (str_of ''Internal Server Error'')) [] 0))
     \<noteq> str_of ''Weather unavailable''"
  by (simp add: init_def update_weather_def str_of_def)

text \<open>
  Claim C2: when the request returns without raising and the status code is not 200,
  \<^verbatim>\<open>update_weather\<close> leaves the weather field as it was; when this happens at
  construction, the weather is still "Fetching..." after any number of iterations of the
  main loop.
\<close>

theorem update_weather_non_200:
  assumes "status_code \<noteq> 200"
  shows "weather (analog_clock (update_weather (Response status_code text) w))
           = weather (analog_clock w) \<and>
         weather (analog_clock (snd (program (Response status_code text) fs)))
           = str_of ''Fetching...''"
  using assms main_loop_frame [of fs "init 250 (300, 300) (Response status_code text) [] 0"]
  by (simp add: program_def init_def update_weather_def)

theorem update_weather_non_200_witness:
  "weather (analog_clock (snd (program (Response 404 (str_of ''Not Found''))
     [\<lparr>events = [],
       now_update = \<lparr>year = 2025, month = 3, day = 23, dt_hour = 9, dt_minute = 30,
                      dt_second = 15, microsecond = 250000\<rparr>,
       now_draw = \<lparr>year = 2025, month = 3, day = 23, dt_hour = 9, dt_minute = 30,
                    dt_second = 15, microsecond = 250040\<rparr>\<rparr>])))
     = str_of ''Fetching...''"
  using update_weather_non_200 [of 404 "str_of ''Not Found''"]
  by simp

text \<open>
  Claim C3: on status 200 the weather field becomes the response body stripped, that is,
  the body without a leading and a trailing run of whitespace, the stored text neither
  starting nor ending with whitespace; the body " +14\<degree>C Partly cloudy " (the degree sign
  is code point 176) is stored as "+14\<degree>C Partly cloudy".
\<close>

theorem update_weather_200:
  fixes w :: world and body :: str
  defines "stored \<equiv> weather (analog_clock (update_weather (Response 200 body) w))"
  shows "stored = strip body \<and>
    (\<exists>pre suf. body = pre @ stored @ suf \<and>
       (\<forall>c\<in>set pre. isspace c) \<and> (\<forall>c\<in>set suf. isspace c)) \<and>
    (stored \<noteq> [] \<longrightarrow> \<not> isspace (hd stored) \<and> \<not> isspace (last stored)) \<and>
    strip (str_of '' +14'' @ [176] @ str_of ''C Partly cloudy '')
      = str_of ''+14'' @ [176] @ str_of ''C Partly cloudy''"
proof -
  have s: "stored = strip body"
    by (simp add: stored_def update_weather_def)
  have e: "strip (str_of '' +14'' @ [176] @ str_of ''C Partly cloudy '')
      = str_of ''+14'' @ [176] @ str_of ''C Partly cloudy''"
    by (simp add: strip_def str_of_def isspace_def)
  from s e strip_decomposition [of body] strip_ends [of body] show ?thesis
    by simp
qed

theorem update_weather_200_witness:
  "weather (analog_clock (update_weather
      (Response 200 (str_of '' +14'' @ [176] @ str_of ''C Partly cloudy ''))
      (init 250 (300, 300) Raised [] 0)))
     = str_of ''+14'' @ [176] @ str_of ''C Partly cloudy''"
  using update_weather_200 [of "str_of '' +14'' @ [176] @ str_of ''C Partly cloudy ''"
      "init 250 (300, 300) Raised [] 0"]
  by simp

section \<open>Theme selection\<close>

lemma themes_differ: "THEMES_dark \<noteq> THEMES_light"
  by (simp add: THEMES_dark_def THEMES_light_def)

text \<open>
  Claim C4: \<^verbatim>\<open>get_theme\<close> returns the dark theme exactly when the hour is at least 18 or
  below 6, and the light theme exactly when the hour is from 6 to 17 (for every integer
  hour, so for every hour from 0 to 23); hours 17 and 6 give light, hours 18 and 5 give
  dark.
\<close>

theorem get_theme_by_hour:
  "(get_theme now = THEMES_dark) = (18 \<le> dt_hour now \<or> dt_hour now < 6) \<and>
   (get_theme now = THEMES_light) = (6 \<le> dt_hour now \<and> dt_hour now < 18) \<and>
   get_theme (now\<lparr>dt_hour := 17\<rparr>) = THEMES_light \<and>
   get_theme (now\<lparr>dt_hour := 18\<rparr>) = THEMES_dark \<and>
   get_theme (now\<lparr>dt_hour := 5\<rparr>) = THEMES_dark \<and>
   get_theme (now\<lparr>dt_hour := 6\<rparr>) = THEMES_light"
  using themes_differ by (auto simp add: get_theme_def Let_def split: if_splits)

theorem get_theme_by_hour_witness:
  "get_theme \<lparr>year = 2025, month = 3, day = 23, dt_hour = 17, dt_minute = 59,
      dt_second = 59, microsecond = 999999\<rparr> = THEMES_light \<and>
   get_theme \<lparr>year = 2025, month = 3, day = 23, dt_hour = 18, dt_minute = 0,
      dt_second = 0, microsecond = 0\<rparr> = THEMES_dark"
  using
    get_theme_by_hour [of "\<lparr>year = 2025, month = 3, day = 23, dt_hour = 17, dt_minute = 59,
      dt_second = 59, microsecond = 999999\<rparr>"]
    get_theme_by_hour [of "\<lparr>year = 2025, month = 3, day = 23, dt_hour = 18, dt_minute = 0,
      dt_second = 0, microsecond = 0\<rparr>"]
  by simp

section \<open>Hand angles\<close>



text \<open>
  Claim C6: for two times within the same second (from 0 to 59), the later
  microsecond value gives the strictly larger second-hand angle
  \<open>(second + microsecond / 1000000) * 6\<close>, and the angle stays at least 0 and below 360.
\<close>

theorem second_hand_angle:
  fixes t1 t2 :: datetime and w1 w2 :: world
  defines "a1 \<equiv> second (analog_clock (update t1 w1)) * 6"
    and "a2 \<equiv> second (analog_clock (update t2 w2)) * 6"
  assumes "dt_second t1 = dt_second t2"
    and "0 \<le> dt_second t1" and "dt_second t1 \<le> 59"
    and "0 \<le> microsecond t1" and "microsecond t1 < microsecond t2"
    and "microsecond t2 \<le> 999999"
  shows "a1 = (real_of_int (dt_second t1) + real_of_int (microsecond t1) / 1000000) * 6 \<and>
    a2 = (real_of_int (dt_second t2) + real_of_int (microsecond t2) / 1000000) * 6 \<and>
    a1 < a2 \<and> 0 \<le> a1 \<and> a2 < 360"
proof -
  have e1: "a1 = (real_of_int (dt_second t1) + real_of_int (microsecond t1) / 1000000) * 6"
    and e2: "a2 = (real_of_int (dt_second t2) + real_of_int (microsecond t2) / 1000000) * 6"
    by (simp_all add: a1_def a2_def update_def)
  have "real_of_int (microsecond t1) < real_of_int (microsecond t2)"
    using assms(7) by simp
  then have lt: "a1 < a2"
    unfolding e1 e2 assms(3) by simp
  have "0 \<le> real_of_int (dt_second t1)" "0 \<le> real_of_int (microsecond t1)"
    using assms(4,6) by simp_all
  then have lo: "0 \<le> a1"
    unfolding e1 by simp
  have "real_of_int (dt_second t2) \<le> 59" "real_of_int (microsecond t2) \<le> 999999"
    using assms(3,5,8) by linarith+
  then have hi: "a2 < 360"
    unfolding e2 by simp
  from e1 e2 lt lo hi show ?thesis by (simp only: simp_thms)
qed

theorem second_hand_angle_witness:
  "second (analog_clock
       (update \<lparr>year = 2025, month = 3, day = 23, dt_hour = 17, dt_minute = 59,
                 dt_second = 59, microsecond = 999998\<rparr>
          (init 250 (300, 300) Raised [] 0))) * 6
     < second (analog_clock
       (update \<lparr>year = 2025, month = 3, day = 23, dt_hour = 17, dt_minute = 59,
                 dt_second = 59, microsecond = 999999\<rparr>
          (init 250 (300, 300) Raised [] 0))) * 6 \<and>
   second (analog_clock
       (update \<lparr>year = 2025, month = 3, day = 23, dt_hour = 17, dt_minute = 59,
                 dt_second = 59, microsecond = 999999\<rparr>
          (init 250 (300, 300) Raised [] 0))) * 6 < 360"
  using second_hand_angle [of
      "\<lparr>year = 2025, month = 3, day = 23, dt_hour = 17, dt_minute = 59,
                 dt_second = 59, microsecond = 999998\<rparr>"
      "\<lparr>year = 2025, month = 3, day = 23, dt_hour = 17, dt_minute = 59,
                 dt_second = 59, microsecond = 999999\<rparr>"
      "init 250 (300, 300) Raised [] 0" "init 250 (300, 300) Raised [] 0"]
  by simp

section \<open>The drawing sequence\<close>






section \<open>Frame properties of the program\<close>

text \<open>
  Claim C9: in a run of the program over any number of frames, exactly one HTTP request
  has been made (the one of the constructor), the weather field holds the value it had
  after construction, and every info text blitted so far ends with that weather string.
\<close>

theorem weather_fetched_once:
  "http_requests (snd (program outcome fs)) = 1 \<and>
   weather (analog_clock (snd (program outcome fs)))
     = weather (analog_clock (init 250 (300, 300) outcome [] 0)) \<and>
   (\<forall>op\<in>set (window (snd (program outcome fs))).
      info_text_ends_with
        (str_of '' | '' @ weather (analog_clock (init 250 (300, 300) outcome [] 0))) op)"
proof -
  let ?w = "init 250 (300, 300) outcome [] 0"
  have "window ?w = []"
    by (simp add: init_def update_weather_window)
  then have "\<forall>op\<in>set (window ?w). info_text_ends_with (str_of '' | '' @ weather (analog_clock ?w)) op"
    by simp
  from main_loop_info_text [OF this, of fs] main_loop_frame [of fs ?w]
  show ?thesis
    by (simp add: program_def) (simp add: init_def update_weather_requests)
qed

theorem weather_fetched_once_witness:
  "http_requests (snd (program Raised
     [\<lparr>events = [OtherEvent 0],
       now_update = \<lparr>year = 2025, month = 3, day = 23, dt_hour = 17, dt_minute = 59,
                      dt_second = 59, microsecond = 999999\<rparr>,
       now_draw = \<lparr>year = 2025, month = 3, day = 23, dt_hour = 18, dt_minute = 0,
                    dt_second = 0, microsecond = 12\<rparr>\<rparr>])) = 1 \<and>
   weather (analog_clock (snd (program Raised
     [\<lparr>events = [OtherEvent 0],
       now_update = \<lparr>year = 2025, month = 3, day = 23, dt_hour = 17, dt_minute = 59,
                      dt_second = 59, microsecond = 999999\<rparr>,
       now_draw = \<lparr>year = 2025, month = 3, day = 23, dt_hour = 18, dt_minute = 0,
                    dt_second = 0, microsecond = 12\<rparr>\<rparr>]))) = str_of ''Weather unavailable''"
  using weather_fetched_once [of Raised
     "[\<lparr>events = [OtherEvent 0],
       now_update = \<lparr>year = 2025, month = 3, day = 23, dt_hour = 17, dt_minute = 59,
                      dt_second = 59, microsecond = 999999\<rparr>,
       now_draw = \<lparr>year = 2025, month = 3, day = 23, dt_hour = 18, dt_minute = 0,
                    dt_second = 0, microsecond = 12\<rparr>\<rparr>]"]
  by (simp add: init_def update_weather_def)

text \<open>
  Claim C10: \<^verbatim>\<open>draw\<close> leaves every field of the clock object as it was, whether it
  returns or raises.
\<close>

theorem draw_read_only:
  "clock_size (analog_clock (snd (draw now w))) = clock_size (analog_clock w) \<and>
   position (analog_clock (snd (draw now w))) = position (analog_clock w) \<and>
   hour (analog_clock (snd (draw now w))) = hour (analog_clock w) \<and>
   minute (analog_clock (snd (draw now w))) = minute (analog_clock w) \<and>
   second (analog_clock (snd (draw now w))) = second (analog_clock w) \<and>
   milliseconds (analog_clock (snd (draw now w))) = milliseconds (analog_clock w) \<and>
   current_date (analog_clock (snd (draw now w))) = current_date (analog_clock w) \<and>
   weather (analog_clock (snd (draw now w))) = weather (analog_clock w)"
  by (simp add: draw_frame)

theorem draw_read_only_witness:
  "weather (analog_clock (snd (draw
      \<lparr>year = 2025, month = 3, day = 23, dt_hour = 18, dt_minute = 0,
        dt_second = 0, microsecond = 12\<rparr>
      (init 250 (300, 300) Raised [] 0)))) = str_of ''Weather unavailable'' \<and>
   current_date (analog_clock (snd (draw
      \<lparr>year = 2025, month = 3, day = 23, dt_hour = 18, dt_minute = 0,
        dt_second = 0, microsecond = 12\<rparr>
      (init 250 (300, 300) Raised [] 0)))) = None"
  using draw_read_only [of
      "\<lparr>year = 2025, month = 3, day = 23, dt_hour = 18, dt_minute = 0,
        dt_second = 0, microsecond = 12\<rparr>" "init 250 (300, 300) Raised [] 0"]
  by (simp add: init_def update_weather_def)

end
